theory Spec2Isabelle
  imports Main
begin

section \<open>Python values, documents and errors\<close>

text \<open>
  Column values and identifiers are Python objects. The repository inspects them with
  \<^verbatim>\<open>isinstance\<close>, \<^verbatim>\<open>is None\<close> and truthiness, so they are a tagged union here. A
  \<^verbatim>\<open>uuid.UUID\<close> object is represented by its 128-bit integer. A string is a sequence of
  code points below 256 (Latin-1).
\<close>

datatype pyval =
    VNone
  | VBool bool
  | VInt int
  | VStr string
  | VUuid nat
  | VList "pyval list"

text \<open>
  The \<^verbatim>\<open>Dict[str, Any]\<close> that the expander returns: column values, nested documents and
  lists of them. Python dictionaries keep insertion order, so a document is an association
  list with unique keys. \<^verbatim>\<open>None\<close> is \<open>JVal VNone\<close>.
\<close>

datatype json =
    JVal pyval
  | JDoc "(string \<times> json) list"
  | JList "json list"

datatype nf_message = Entity_not_found | Invalid_UUID_format

datatype error =
    ValueError
  | TypeError
  | AttributeError string
  | ArgumentError
  | UnboundLocalError string
  | StoreError
  | CompileError
  | MultipleResultsFound
  | NotFoundException nf_message
  | BadRequestException error

type_synonym row = "(string \<times> pyval) list"

section \<open>String helpers of the Python source\<close>

definition endswith :: "string \<Rightarrow> string \<Rightarrow> bool" where
  "endswith s suf = (length suf \<le> length s \<and> drop (length s - length suf) s = suf)"

fun py_split :: "char \<Rightarrow> string \<Rightarrow> string list" where
  "py_split c [] = [[]]"
| "py_split c (x # xs) =
     (if x = c then [] # py_split c xs
      else (case py_split c xs of [] \<Rightarrow> [[x]] | w # ws \<Rightarrow> (x # w) # ws))"

fun py_join :: "string \<Rightarrow> string list \<Rightarrow> string" where
  "py_join sep [] = []"
| "py_join sep [w] = w"
| "py_join sep (w # ws) = w @ sep @ py_join sep ws"

definition upper_char :: "char \<Rightarrow> char" where
  "upper_char c =
     (case map_of (zip ''abcdefghijklmnopqrstuvwxyz'' ''ABCDEFGHIJKLMNOPQRSTUVWXYZ'') c of
        None \<Rightarrow> c | Some u \<Rightarrow> u)"

definition lower_char :: "char \<Rightarrow> char" where
  "lower_char c =
     (case map_of (zip ''ABCDEFGHIJKLMNOPQRSTUVWXYZ'' ''abcdefghijklmnopqrstuvwxyz'') c of
        None \<Rightarrow> c | Some l \<Rightarrow> l)"

fun capitalize :: "string \<Rightarrow> string" where
  "capitalize [] = []"
| "capitalize (c # cs) = upper_char c # map lower_char cs"

definition digit_value :: "char \<Rightarrow> int option" where
  "digit_value c = map_of (zip ''0123456789'' [0, 1, 2, 3, 4, 5, 6, 7, 8, 9]) c"

text \<open>
  \<^verbatim>\<open>str.isdigit()\<close>: the string is not empty and every character is a digit. Below 256
  the digits are the decimals \<^verbatim>\<open>0\<close> to \<^verbatim>\<open>9\<close> and the superscripts two, three and one
  (code points B2, B3 and B9).
\<close>

definition superscript_digits :: "char list" where
  "superscript_digits = [CHR 0xB2, CHR 0xB3, CHR 0xB9]"

definition isdigit :: "string \<Rightarrow> bool" where
  "isdigit s = (s \<noteq> [] \<and> list_all (\<lambda>c. c \<in> set (''0123456789'' @ superscript_digits)) s)"

text \<open>
  \<^verbatim>\<open>int(s)\<close> on a string for which \<^verbatim>\<open>isdigit()\<close> holds; \<open>None\<close> is its
  \<^verbatim>\<open>ValueError\<close>, raised on a digit that is no decimal and on more digits than the
  interpreter converts (4300, the default of \<^verbatim>\<open>sys.int_max_str_digits\<close>).
\<close>

definition int_max_str_digits :: nat where
  "int_max_str_digits = 4300"

definition py_int :: "string \<Rightarrow> int option" where
  "py_int s =
     (if s \<noteq> [] \<and> list_all (\<lambda>c. digit_value c \<noteq> None) s \<and> length s \<le> int_max_str_digits
      then Some (foldl (\<lambda>n c. 10 * n + (case digit_value c of None \<Rightarrow> 0 | Some d \<Rightarrow> d)) 0 s)
      else None)"

fun truthy :: "pyval \<Rightarrow> bool" where
  "truthy VNone = False"
| "truthy (VBool b) = b"
| "truthy (VInt i) = (i \<noteq> 0)"
| "truthy (VStr s) = (s \<noteq> [])"
| "truthy (VUuid u) = True"
| "truthy (VList xs) = (xs \<noteq> [])"

text \<open>\<^verbatim>\<open>d[k] = v\<close> on an insertion-ordered dictionary.\<close>

fun dict_set :: "(string \<times> 'a) list \<Rightarrow> string \<Rightarrow> 'a \<Rightarrow> (string \<times> 'a) list" where
  "dict_set [] k v = [(k, v)]"
| "dict_set ((k', v') # d) k v =
     (if k' = k then (k, v) # d else (k', v') # dict_set d k v)"

section \<open>Mapped classes, the registry and the session\<close>

text \<open>
  What the repository reads off a mapped class: its \<^verbatim>\<open>__name__\<close>, the keys of its mapped
  columns, its other attributes (relationships and the like), the names with a truthy
  entry in the class's own \<^verbatim>\<open>__dict__\<close>, and whether
  \<^verbatim>\<open>model.id.type.python_type == UUID\<close>.
\<close>

record model =
  cls_name :: string
  columns :: "string list"
  other_attrs :: "string list"
  own_attrs :: "string list"
  id_python_type_is_UUID :: bool

definition hasattr :: "model \<Rightarrow> string \<Rightarrow> bool" where
  "hasattr m a = (a \<in> set (columns m) \<or> a \<in> set (other_attrs m))"

text \<open>
  The process-wide context: \<^verbatim>\<open>uuid.UUID(s)\<close> of the standard library (\<open>None\<close> when it
  raises \<^verbatim>\<open>ValueError\<close>, the only exception it raises on a string), the builtin
  \<^verbatim>\<open>str(v)\<close>, and \<^verbatim>\<open>Base.__subclasses__()\<close>.
\<close>

record env =
  UUID_ctor :: "string \<Rightarrow> nat option"
  py_str :: "pyval \<Rightarrow> string"
  subclasses :: "model list"

text \<open>
  The SQL expressions the filter translator builds from a mapped attribute:
  \<^verbatim>\<open>attr == v\<close>, \<^verbatim>\<open>attr.is_(None)\<close>, \<^verbatim>\<open>attr.in_(v)\<close>, \<^verbatim>\<open>attr.any(v)\<close>,
  \<^verbatim>\<open>attr >= t\<close> and \<^verbatim>\<open>attr <= t\<close>; and a \<^verbatim>\<open>select\<close> of one column with its clauses.
\<close>

datatype predicate =
    Eq string pyval
  | Is_None string
  | In_list string pyval
  | Any_of string pyval
  | Ge string int
  | Le string int

record query =
  selected :: string
  where_clauses :: "predicate list"
  offset_clause :: "pyval option"
  limit_clause :: "pyval option"

text \<open>
  The relational store behind an \<^verbatim>\<open>AsyncSession\<close>: the rows of every mapped class, the
  value a literal stands for when it is compared with a column (the driver's conversion:
  for a UUID-typed column a string is the UUID it denotes), the comparisons
  \<^verbatim>\<open>column == literal\<close> on which the store raises instead of answering (a driver
  rejecting a literal, an outage), the row the store builds for an
  \<^verbatim>\<open>INSERT\<close> (generated identifier, column defaults), and its answer to a
  \<^verbatim>\<open>select\<close> of one column over the rows of a class (which also validates the
  \<^verbatim>\<open>OFFSET\<close> and \<^verbatim>\<open>LIMIT\<close> clauses).
\<close>

record session =
  tables :: "string \<Rightarrow> row list"
  literal :: "string \<Rightarrow> string \<Rightarrow> pyval \<Rightarrow> pyval"
  rejects :: "string \<Rightarrow> string \<Rightarrow> pyval \<Rightarrow> bool"
  inserted_row :: "string \<Rightarrow> row list \<Rightarrow> row \<Rightarrow> error + row"
  query_result :: "row list \<Rightarrow> query \<Rightarrow> error + pyval list"

text \<open>
  \<^verbatim>\<open>_execute_query_one_or_none(select(model).where(model.<col> == v))\<close>: the attribute
  access fails on a class without the column, the store may raise, and
  \<^verbatim>\<open>scalar_one_or_none\<close> raises on more than one row. A store failure is never a
  \<^verbatim>\<open>ValueError\<close>.
\<close>

definition execute_query_one_or_none ::
    "session \<Rightarrow> model \<Rightarrow> string \<Rightarrow> pyval \<Rightarrow> error + row option" where
  "execute_query_one_or_none S m col v =
     (if \<not> hasattr m col then Inl (AttributeError col)
      else if rejects S (cls_name m) col v then Inl StoreError
      else (case filter (\<lambda>r. map_of r col = Some (literal S (cls_name m) col v))
                   (tables S (cls_name m)) of
              [] \<Rightarrow> Inr None
            | [r] \<Rightarrow> Inr (Some r)
            | _ \<Rightarrow> Inl MultipleResultsFound))"

section \<open>Identifier resolution\<close>

text \<open>
  \<^verbatim>\<open>__get_entity_by_id_or_uuid\<close>. The class is optional because the plural branch of the
  expander passes on what the registry returned without a check: on \<^verbatim>\<open>None\<close> the
  \<^verbatim>\<open>select\<close> raises. \<^verbatim>\<open>isinstance(entity_id, int)\<close> holds for a \<^verbatim>\<open>bool\<close> as well. The
  \<^verbatim>\<open>except ValueError\<close> handlers only ever see the \<^verbatim>\<open>ValueError\<close> of \<^verbatim>\<open>UUID(...)\<close>; the
  \<^verbatim>\<open>ValueError\<close> of \<^verbatim>\<open>int(...)\<close> is raised inside a handler or outside every
  \<^verbatim>\<open>try\<close>, and leaves the function.
\<close>

fun get_entity_by_id_or_uuid ::
    "env \<Rightarrow> session \<Rightarrow> pyval \<Rightarrow> model option \<Rightarrow> error + row option" where
  "get_entity_by_id_or_uuid E S entity_id None =
     (case entity_id of
        VStr s \<Rightarrow> (if isdigit s \<and> py_int s = None then Inl ValueError else Inl ArgumentError)
      | _ \<Rightarrow> Inl ArgumentError)"
| "get_entity_by_id_or_uuid E S entity_id (Some m) =
     (if hasattr m ''uuid'' \<and> hasattr m ''id'' then
        (if id_python_type_is_UUID m then
           (case entity_id of
              VStr s \<Rightarrow>
                (case UUID_ctor E s of
                   None \<Rightarrow> Inr None
                 | Some u \<Rightarrow> execute_query_one_or_none S m ''id'' (VUuid u))
            | _ \<Rightarrow> execute_query_one_or_none S m ''id'' entity_id)
         else
           (case entity_id of
              VStr s \<Rightarrow>
                (case UUID_ctor E s of
                   Some u \<Rightarrow> execute_query_one_or_none S m ''uuid'' (VUuid u)
                 | None \<Rightarrow>
                     (if isdigit s
                      then (case py_int s of
                              None \<Rightarrow> Inl ValueError
                            | Some i \<Rightarrow> execute_query_one_or_none S m ''id'' (VInt i))
                      else Inr None))
            | VInt i \<Rightarrow> execute_query_one_or_none S m ''id'' entity_id
            | VBool b \<Rightarrow> execute_query_one_or_none S m ''id'' entity_id
            | _ \<Rightarrow> execute_query_one_or_none S m ''uuid'' entity_id))
      else
        (case entity_id of
           VStr s \<Rightarrow>
             (if isdigit s
              then (case py_int s of
                      None \<Rightarrow> Inl ValueError
                    | Some i \<Rightarrow> execute_query_one_or_none S m ''id'' (VInt i))
              else execute_query_one_or_none S m ''id'' entity_id)
         | _ \<Rightarrow> execute_query_one_or_none S m ''id'' entity_id))"

section \<open>The recursive expander\<close>

definition object_as_dict :: "row \<Rightarrow> (string \<times> pyval) list" where
  "object_as_dict obj = foldl (\<lambda>d (k, v). dict_set d k v) [] obj"

definition is_model_id_or_uuid :: "string \<Rightarrow> bool" where
  "is_model_id_or_uuid column_name =
     (endswith column_name ''id'' \<or> endswith column_name ''uuid'')"

definition is_model_ids_or_uuids :: "string \<Rightarrow> bool" where
  "is_model_ids_or_uuids column_name =
     (endswith column_name ''ids'' \<or> endswith column_name ''uuids'')"

text \<open>
  \<^verbatim>\<open>{cls.__name__: cls for cls in Base.__subclasses__()}.get(...)\<close>: the last class of a
  name wins in the comprehension.
\<close>

definition get_model_by_name :: "env \<Rightarrow> string \<Rightarrow> model option" where
  "get_model_by_name E model_name =
     map_of (rev (map (\<lambda>cls. (cls_name cls, cls)) (subclasses E)))
       (concat (map capitalize (py_split CHR ''_'' model_name)))"

fun add_fields_to_json ::
    "(string \<times> json) list \<Rightarrow> (string \<times> json) list \<Rightarrow> (string \<times> json) list" where
  "add_fields_to_json json_obj [] = json_obj"
| "add_fields_to_json json_obj ((column_name, sub_json) # fields_to_add) =
     (if sub_json \<noteq> JVal VNone
      then add_fields_to_json (dict_set json_obj column_name sub_json) fields_to_add
      else add_fields_to_json json_obj fields_to_add)"

text \<open>Iterating a Python value: a list yields its elements, a string its characters.\<close>

fun py_iter :: "pyval \<Rightarrow> error + pyval list" where
  "py_iter (VList xs) = Inr xs"
| "py_iter (VStr s) = Inr (map (\<lambda>c. VStr [c]) s)"
| "py_iter _ = Inl TypeError"

text \<open>
  \<^verbatim>\<open>asyncio.gather\<close> without \<^verbatim>\<open>return_exceptions\<close>: the results in input order, or
  the exception of a failing awaitable (the first in input order here).
\<close>

fun gather :: "(error + 'a) list \<Rightarrow> error + 'a list" where
  "gather [] = Inr []"
| "gather (Inl e # rs) = Inl e"
| "gather (Inr x # rs) = (case gather rs of Inl e \<Rightarrow> Inl e | Inr xs \<Rightarrow> Inr (x # xs))"

text \<open>
  One round of the loop over \<^verbatim>\<open>json_result.items()\<close>: what the column appends to
  \<^verbatim>\<open>jsons_to_add_to_final_result\<close>. \<open>recurse\<close> is the recursive call at
  \<^verbatim>\<open>recursive_depth - 1\<close>.
\<close>

definition column_name_of :: "string \<Rightarrow> string" where
  "column_name_of column = py_join ''_'' (butlast (py_split CHR ''_'' column))"

definition expand_column ::
    "env \<Rightarrow> (model option \<Rightarrow> pyval \<Rightarrow> error + json) \<Rightarrow> string \<times> pyval
      \<Rightarrow> error + (string \<times> json) list" where
  "expand_column E recurse item =
     (let column = fst item; value = snd item in
      if is_model_id_or_uuid column then
        (let column_name = column_name_of column in
         case get_model_by_name E column_name of
           None \<Rightarrow> Inr []
         | Some m \<Rightarrow>
             (case recurse (Some m) value of
                Inl e \<Rightarrow> Inl e
              | Inr sub_json \<Rightarrow> Inr [(column_name, sub_json)]))
      else if is_model_ids_or_uuids column then
        (let column_name = column_name_of column;
             m = get_model_by_name E column_name in
         if value \<noteq> VNone then
           (case py_iter value of
              Inl e \<Rightarrow> Inl e
            | Inr vals \<Rightarrow>
                (case gather (map (recurse m) (filter (\<lambda>val. val \<noteq> VNone) vals)) of
                   Inl e \<Rightarrow> Inl e
                 | Inr sub_jsons \<Rightarrow> Inr [(column_name @ ''s'', JList sub_jsons)]))
         else Inr [])
      else Inr [])"

fun expand_columns ::
    "env \<Rightarrow> (model option \<Rightarrow> pyval \<Rightarrow> error + json) \<Rightarrow> (string \<times> pyval) list
      \<Rightarrow> error + (string \<times> json) list" where
  "expand_columns E recurse [] = Inr []"
| "expand_columns E recurse (item # items) =
     (case expand_column E recurse item of
        Inl e \<Rightarrow> Inl e
      | Inr added \<Rightarrow>
          (case expand_columns E recurse items of
             Inl e \<Rightarrow> Inl e
           | Inr rest \<Rightarrow> Inr (added @ rest)))"

definition scalars :: "(string \<times> pyval) list \<Rightarrow> (string \<times> json) list" where
  "scalars d = map (\<lambda>(k, v). (k, JVal v)) d"

function get_one_recursive ::
    "env \<Rightarrow> session \<Rightarrow> model option \<Rightarrow> pyval \<Rightarrow> int \<Rightarrow> error + json" where
  "get_one_recursive E S m item_id recursive_depth =
     (case get_entity_by_id_or_uuid E S item_id m of
        Inl e \<Rightarrow> Inr (JVal VNone)
      | Inr None \<Rightarrow> Inr (JVal VNone)
      | Inr (Some object_result) \<Rightarrow>
          (let json_result = object_as_dict object_result in
           if recursive_depth > 0 then
             (case expand_columns E
                     (\<lambda>m' value. get_one_recursive E S m' value (recursive_depth - 1))
                     json_result of
                Inl e \<Rightarrow> Inl e
              | Inr jsons_to_add \<Rightarrow>
                  Inr (JDoc (add_fields_to_json (scalars json_result) jsons_to_add)))
           else Inr (JDoc (add_fields_to_json (scalars json_result) []))))"
  by pat_completeness auto
termination
  by (relation "measure (\<lambda>(E, S, m, item_id, recursive_depth). nat recursive_depth)") auto

declare get_one_recursive.simps [simp del]

section \<open>Reading one entity\<close>

definition get_entity_from_db_by_id ::
    "env \<Rightarrow> session \<Rightarrow> model \<Rightarrow> pyval \<Rightarrow> int \<Rightarrow> error + json" where
  "get_entity_from_db_by_id E S m entity_id recursive_depth =
     (if hasattr m ''uuid'' \<and> hasattr m ''id'' \<and> id_python_type_is_UUID m then
        (case entity_id of
           VStr s \<Rightarrow>
             (case UUID_ctor E s of
                None \<Rightarrow> Inr (JVal VNone)
              | Some u \<Rightarrow> get_one_recursive E S (Some m) (VUuid u) recursive_depth)
         | _ \<Rightarrow> get_one_recursive E S (Some m) entity_id recursive_depth)
      else get_one_recursive E S (Some m) entity_id recursive_depth)"

section \<open>Writing\<close>

text \<open>
  \<^verbatim>\<open>insert(model).values(**values).returning(model.id)\<close> followed by
  \<^verbatim>\<open>result.scalar()\<close>: the store builds the row, appends it and returns its id.
\<close>

definition db_insert :: "session \<Rightarrow> model \<Rightarrow> row \<Rightarrow> error + (pyval \<times> session)" where
  "db_insert S m values =
     (if \<not> hasattr m ''id'' then Inl (AttributeError ''id'')
      else (case inserted_row S (cls_name m) (tables S (cls_name m)) values of
              Inl e \<Rightarrow> Inl e
            | Inr r \<Rightarrow>
                Inr (case map_of r ''id'' of None \<Rightarrow> VNone | Some i \<Rightarrow> i,
                     S\<lparr>tables := (tables S)(cls_name m := tables S (cls_name m) @ [r])\<rparr>)))"

text \<open>The default \<^verbatim>\<open>recursive_depth\<close> of \<^verbatim>\<open>__get_one_recursive\<close>.\<close>

definition default_recursive_depth :: int where
  "default_recursive_depth = 2"

definition create_entity_in_db ::
    "env \<Rightarrow> session \<Rightarrow> model \<Rightarrow> row \<Rightarrow> error + (json \<times> session)" where
  "create_entity_in_db E S m entity =
     (case db_insert S m entity of
        Inl e \<Rightarrow> Inl e
      | Inr (entity_from_db_id, S') \<Rightarrow>
          (if hasattr m ''uuid'' \<and> id_python_type_is_UUID m then
             (case execute_query_one_or_none S' m ''id'' entity_from_db_id of
                Inl e \<Rightarrow> Inl e
              | Inr (Some created_entity) \<Rightarrow>
                  Inr (JDoc (scalars (object_as_dict created_entity)), S')
              | Inr None \<Rightarrow>
                  (case get_one_recursive E S' (Some m) entity_from_db_id
                          default_recursive_depth of
                     Inl e \<Rightarrow> Inl e
                   | Inr j \<Rightarrow> Inr (j, S')))
           else
             (case get_one_recursive E S' (Some m) entity_from_db_id
                     default_recursive_depth of
                Inl e \<Rightarrow> Inl e
              | Inr j \<Rightarrow> Inr (j, S'))))"

definition patch :: "row \<Rightarrow> row \<Rightarrow> row" where
  "patch r data = foldl (\<lambda>r' (k, v). dict_set r' k v) r data"

text \<open>
  \<^verbatim>\<open>update(model).where(model.<col> == v).values(**data)\<close>: a key that is no mapped
  column is refused when the statement is compiled.
\<close>

definition db_update ::
    "session \<Rightarrow> model \<Rightarrow> string \<Rightarrow> pyval \<Rightarrow> row \<Rightarrow> error + session" where
  "db_update S m col v data =
     (if \<not> hasattr m col then Inl (AttributeError col)
      else if list_ex (\<lambda>k. k \<notin> set (columns m)) (map fst data) then Inl CompileError
      else if rejects S (cls_name m) col v then Inl StoreError
      else Inr (S\<lparr>tables := (tables S)(cls_name m :=
                  map (\<lambda>r. if map_of r col = Some (literal S (cls_name m) col v)
                           then patch r data else r)
                    (tables S (cls_name m)))\<rparr>))"






section \<open>The filter translator\<close>

definition dict_get :: "(string \<times> pyval) list \<Rightarrow> string \<Rightarrow> pyval" where
  "dict_get d k = (case map_of d k of None \<Rightarrow> VNone | Some v \<Rightarrow> v)"

definition stringify_uuids :: "env \<Rightarrow> pyval \<Rightarrow> pyval" where
  "stringify_uuids E value =
     (case value of
        VUuid u \<Rightarrow> VStr (py_str E value)
      | VList vs \<Rightarrow> VList (map (\<lambda>v. case v of VUuid u \<Rightarrow> VStr (py_str E v) | _ \<Rightarrow> v) vs)
      | _ \<Rightarrow> value)"

definition is_list :: "pyval \<Rightarrow> bool" where
  "is_list v = (case v of VList xs \<Rightarrow> True | _ \<Rightarrow> False)"

definition is_bool :: "pyval \<Rightarrow> bool" where
  "is_bool v = (case v of VBool b \<Rightarrow> True | _ \<Rightarrow> False)"

text \<open>Sequencing two steps that append filters: the first exception ends the call.\<close>

definition then_append :: "error + 'a list \<Rightarrow> error + 'a list \<Rightarrow> error + 'a list" where
  "then_append first second =
     (case first of
        Inl e \<Rightarrow> Inl e
      | Inr xs \<Rightarrow> (case second of Inl e \<Rightarrow> Inl e | Inr ys \<Rightarrow> Inr (xs @ ys)))"

text \<open>One round of the loop over \<^verbatim>\<open>processed_params.items()\<close>.\<close>

definition filters_of_param :: "env \<Rightarrow> model \<Rightarrow> string \<times> pyval \<Rightarrow> error + predicate list" where
  "filters_of_param E m item =
     (let param = fst item; value = stringify_uuids E (snd item) in
      then_append
        (if is_model_id_or_uuid param then
           (if \<not> hasattr m param then Inl (AttributeError param)
            else if value = VNone then Inr [Is_None param]
            else if is_list value then Inr [In_list param value]
            else Inr [Eq param value])
         else Inr [])
        (then_append
          (if is_model_ids_or_uuids param then
             (if param \<in> set (own_attrs m) then
                (if \<not> hasattr m param then Inl (AttributeError param)
                 else Inr [Any_of param value])
              else
                (if \<not> hasattr m (butlast param) then Inl (AttributeError (butlast param))
                 else if is_list value then Inr [In_list (butlast param) value]
                 else Inl ArgumentError))
           else Inr [])
          (if is_bool (snd item) then
             (if \<not> hasattr m param then Inl (AttributeError param)
              else Inr [Eq param value])
           else Inr [])))"

fun filters_of_params ::
    "env \<Rightarrow> model \<Rightarrow> (string \<times> pyval) list \<Rightarrow> error + predicate list" where
  "filters_of_params E m [] = Inr []"
| "filters_of_params E m (item # items) =
     then_append (filters_of_param E m item) (filters_of_params E m items)"

text \<open>
  The attribute \<^verbatim>\<open>parse_datetime\<close> of the repository object. Neither
  \<^verbatim>\<open>BaseRepository\<close> nor any of its subclasses defines one, so looking it up raises
  \<^verbatim>\<open>AttributeError\<close>, before the argument of the call is evaluated.
\<close>

definition self_parse_datetime :: "(string \<Rightarrow> error + int) option" where
  "self_parse_datetime = None"

definition time_filter ::
    "env \<Rightarrow> model \<Rightarrow> (string \<times> pyval) list \<Rightarrow> string \<Rightarrow> string \<Rightarrow> (string \<Rightarrow> int \<Rightarrow> predicate)
      \<Rightarrow> error + predicate list" where
  "time_filter E m query_parameters param datetime_column compare =
     (if truthy (dict_get query_parameters param) then
        (case self_parse_datetime of
           None \<Rightarrow> Inl (AttributeError ''parse_datetime'')
         | Some parse \<Rightarrow>
             (case parse (py_str E (dict_get query_parameters param)) of
                Inl e \<Rightarrow> Inl e
              | Inr t \<Rightarrow>
                  (if datetime_column \<in> set (own_attrs m) then
                     (if \<not> hasattr m datetime_column
                      then Inl (AttributeError datetime_column)
                      else Inr [compare datetime_column t])
                   else
                     (if \<not> hasattr m param then Inl (AttributeError param)
                      else Inr [compare param t]))))
      else Inr [])"

text \<open>
  \<^verbatim>\<open>_process_filters_of_query_parameters(filters, query_parameters)\<close>, where
  \<^verbatim>\<open>None\<close> and the empty mapping both count as no parameters.
\<close>

definition process_filters_of_query_parameters ::
    "env \<Rightarrow> model \<Rightarrow> predicate list \<Rightarrow> (string \<times> pyval) list \<Rightarrow> error + predicate list" where
  "process_filters_of_query_parameters E m filters query_parameters =
     (if query_parameters = [] then Inr filters
      else
        (let rewrite = (truthy (dict_get query_parameters ''user_id'')
                         \<and> hasattr m ''user_uuid'');
             processed_params =
               (if rewrite then filter (\<lambda>(k, v). k \<noteq> ''user_id'') query_parameters
                else query_parameters)
         in then_append
              (Inr (if rewrite
                    then filters @ [Eq ''user_uuid'' (dict_get query_parameters ''user_id'')]
                    else filters))
              (then_append (filters_of_params E m processed_params)
                 (if truthy (dict_get query_parameters ''time_start'')
                     \<or> truthy (dict_get query_parameters ''time_finish'')
                  then then_append
                         (time_filter E m query_parameters ''time_start''
                            ''datetime_start'' Ge)
                         (time_filter E m query_parameters ''time_finish''
                            ''datetime_finish'' Le)
                  else Inr []))))"

section \<open>Listing\<close>

definition as_int :: "pyval \<Rightarrow> int option" where
  "as_int v = (case v of VInt i \<Rightarrow> Some i | VBool b \<Rightarrow> Some (if b then 1 else 0) | _ \<Rightarrow> None)"

text \<open>\<^verbatim>\<open>a * b\<close>: numbers multiply, a sequence times a number repeats the sequence.\<close>

definition repeat :: "pyval \<Rightarrow> int \<Rightarrow> error + pyval" where
  "repeat v n =
     (case v of
        VStr s \<Rightarrow> Inr (VStr (concat (replicate (nat n) s)))
      | VList xs \<Rightarrow> Inr (VList (concat (replicate (nat n) xs)))
      | _ \<Rightarrow> Inl TypeError)"

definition py_mul :: "pyval \<Rightarrow> pyval \<Rightarrow> error + pyval" where
  "py_mul a b =
     (case (as_int a, as_int b) of
        (Some x, Some y) \<Rightarrow> Inr (VInt (x * y))
      | (None, Some y) \<Rightarrow> repeat a y
      | (Some x, None) \<Rightarrow> repeat b x
      | (None, None) \<Rightarrow> Inl TypeError)"

text \<open>
  The pagination block. The locals \<^verbatim>\<open>limit\<close> and \<^verbatim>\<open>offset\<close> are bound only inside
  \<^verbatim>\<open>if filters:\<close>; \<open>None\<close> is an unbound local, and reading one raises
  \<^verbatim>\<open>UnboundLocalError\<close>.
\<close>

definition paginate :: "query \<Rightarrow> pyval option \<Rightarrow> pyval option \<Rightarrow> error + query" where
  "paginate q limit offset =
     (case offset of
        None \<Rightarrow> Inl (UnboundLocalError ''offset'')
      | Some off \<Rightarrow>
          (if truthy off then
             (case limit of
                None \<Rightarrow> Inl (UnboundLocalError ''limit'')
              | Some lim \<Rightarrow>
                  (if truthy lim then
                     (case py_mul off lim of
                        Inl e \<Rightarrow> Inl e
                      | Inr p \<Rightarrow> Inr (q\<lparr>offset_clause := Some p\<rparr>))
                   else Inr (q\<lparr>offset_clause := Some off\<rparr>)))
           else
             (case limit of
                None \<Rightarrow> Inl (UnboundLocalError ''limit'')
              | Some lim \<Rightarrow>
                  (if truthy lim then Inr (q\<lparr>limit_clause := Some lim\<rparr>)
                   else Inr q))))"

definition execute_query_scalar_all :: "session \<Rightarrow> model \<Rightarrow> query \<Rightarrow> error + pyval list" where
  "execute_query_scalar_all S m q = query_result S (tables S (cls_name m)) q"

definition get_all_recursive ::
    "env \<Rightarrow> session \<Rightarrow> model \<Rightarrow> (string \<times> pyval) list \<Rightarrow> int \<Rightarrow> error + json list" where
  "get_all_recursive E S m query_parameters recursive_depth =
     (if \<not> hasattr m ''id'' then Inl (AttributeError ''id'')
      else
        (let query = \<lparr>selected = ''id'', where_clauses = [],
                      offset_clause = None, limit_clause = None\<rparr>
         in case (if query_parameters \<noteq> [] then
                    (case process_filters_of_query_parameters E m [] query_parameters of
                       Inl e \<Rightarrow> Inl e
                     | Inr filters \<Rightarrow>
                         (if filters \<noteq> [] then
                            paginate (query\<lparr>where_clauses := filters\<rparr>)
                              (Some (dict_get query_parameters ''limit''))
                              (Some (dict_get query_parameters ''offset''))
                          else paginate query None None))
                  else Inr query) of
              Inl e \<Rightarrow> Inl e
            | Inr query' \<Rightarrow>
                (case execute_query_scalar_all S m query' of
                   Inl e \<Rightarrow> Inl e
                 | Inr all_db_entities_ids \<Rightarrow>
                     gather (map (\<lambda>entity_id.
                                    get_one_recursive E S (Some m) entity_id recursive_depth)
                               all_db_entities_ids))))"

definition get_all_entities_from_db ::
    "env \<Rightarrow> session \<Rightarrow> model \<Rightarrow> (string \<times> pyval) list \<Rightarrow> int \<Rightarrow> error + json list" where
  "get_all_entities_from_db E S m query_parameters recursive_depth =
     get_all_recursive E S m query_parameters recursive_depth"

text \<open>
  \<^verbatim>\<open>BaseService.get_all_entities\<close>: every exception of the repository call or of building
  the response schemas becomes a \<^verbatim>\<open>BadRequestException\<close> that carries it.
\<close>

definition get_all_entities ::
    "env \<Rightarrow> session \<Rightarrow> model \<Rightarrow> (json \<Rightarrow> error + 'a) \<Rightarrow> (string \<times> pyval) list \<Rightarrow> int
      \<Rightarrow> error + 'a list" where
  "get_all_entities E S m get_response_scheme query_parameters recursive_depth =
     (case get_all_entities_from_db E S m query_parameters recursive_depth of
        Inl ex \<Rightarrow> Inl (BadRequestException ex)
      | Inr all_entities \<Rightarrow>
          (case gather (map get_response_scheme all_entities) of
             Inl ex \<Rightarrow> Inl (BadRequestException ex)
           | Inr schemes \<Rightarrow> Inr schemes))"

section \<open>Nesting of a document\<close>

text \<open>
  \<open>nest\<close> counts the levels of documents on the deepest path, the root included;
  \<open>hops\<close> is the number of relationship hops below the root.
\<close>

fun nest :: "json \<Rightarrow> nat" where
  "nest (JVal v) = 0"
| "nest (JDoc kvs) = Suc (foldr max (map (\<lambda>kv. nest (snd kv)) kvs) 0)"
| "nest (JList js) = foldr max (map nest js) 0"

definition hops :: "json \<Rightarrow> nat" where
  "hops j = nest j - 1"

section \<open>A small store used to run the operations\<close>

definition User :: model where
  "User = \<lparr>cls_name = ''User'',
            columns = [''id'', ''uuid'', ''email'', ''organization_id'', ''is_active''],
            other_attrs = [''organization''],
            own_attrs = [''email'', ''organization_id'', ''is_active'', ''organization''],
            id_python_type_is_UUID = False\<rparr>"

definition Organization :: model where
  "Organization = \<lparr>cls_name = ''Organization'',
                    columns = [''id'', ''name''],
                    other_attrs = [''user''],
                    own_attrs = [''name'', ''user''],
                    id_python_type_is_UUID = True\<rparr>"

definition Team :: model where
  "Team = \<lparr>cls_name = ''Team'',
            columns = [''id'', ''user_ids'', ''tag_ids''],
            other_attrs = [],
            own_attrs = [''user_ids'', ''tag_ids''],
            id_python_type_is_UUID = False\<rparr>"

text \<open>
  \<^verbatim>\<open>UUID\<close> restricted to the strings the examples use: two canonical forms, and
  \<^verbatim>\<open>ValueError\<close> on the others (which are shorter than 32 hexadecimal digits).
\<close>

definition demo_env :: env where
  "demo_env = \<lparr>UUID_ctor = (\<lambda>s. if s = ''00000000-0000-0000-0000-000000000007'' then Some 7
                              else if s = ''00000000-0000-0000-0000-000000000009'' then Some 9
                              else None),
               py_str = (\<lambda>v. case v of VStr s \<Rightarrow> s | _ \<Rightarrow> ''''),
               subclasses = [User, Organization, Team]\<rparr>"

definition demo_tables :: "string \<Rightarrow> row list" where
  "demo_tables t =
     (if t = ''User'' then
        [[(''id'', VInt 1), (''uuid'', VUuid 7), (''email'', VStr ''a@b.c''),
          (''organization_id'', VUuid 9), (''is_active'', VBool True)]]
      else if t = ''Organization'' then [[(''id'', VUuid 9), (''name'', VStr ''Acme'')]]
      else if t = ''Team'' then
        [[(''id'', VInt 1), (''user_ids'', VList [VInt 1, VInt 5]),
          (''tag_ids'', VList [VInt 3])]]
      else [])"

text \<open>
  The UUID-typed columns of the store, and the driver's conversion of a literal compared
  with one of them.
\<close>

definition uuid_typed :: "string \<Rightarrow> string \<Rightarrow> bool" where
  "uuid_typed t c =
     ((t, c) \<in> set [(''User'', ''uuid''), (''User'', ''organization_id''),
                    (''Organization'', ''id''), (''Badge'', ''id''), (''Badge'', ''uuid''),
                    (''Badge'', ''organization_id'')])"

definition demo_literal :: "string \<Rightarrow> string \<Rightarrow> pyval \<Rightarrow> pyval" where
  "demo_literal t c v =
     (case v of
        VStr s \<Rightarrow>
          (if uuid_typed t c
           then (case UUID_ctor demo_env s of None \<Rightarrow> v | Some u \<Rightarrow> VUuid u)
           else v)
      | _ \<Rightarrow> v)"

definition demo_session :: session where
  "demo_session = \<lparr>tables = demo_tables,
                   literal = demo_literal,
                   rejects = (\<lambda>t c v. False),
                   inserted_row = (\<lambda>t rows values. Inr values),
                   query_result = (\<lambda>rows q. Inr (map (\<lambda>r. dict_get r (selected q)) rows))\<rparr>"

text \<open>The same store during an outage that hits the lookup of user 5.\<close>

definition outage_session :: session where
  "outage_session =
     demo_session\<lparr>rejects := (\<lambda>t c v. t = ''User'' \<and> c = ''id'' \<and> v = VInt 5)\<rparr>"

text \<open>
  The same store behind a driver that refuses to compare the UUID-typed
  \<open>Organization.id\<close> with a string that is no UUID.
\<close>

definition strict_session :: session where
  "strict_session =
     demo_session\<lparr>rejects := (\<lambda>t c v. t = ''Organization'' \<and> c = ''id''
        \<and> (case v of VStr s \<Rightarrow> UUID_ctor demo_env s = None | _ \<Rightarrow> False))\<rparr>"

text \<open>A class with a \<open>uuid\<close> attribute and a UUID-typed \<open>id\<close>, and the store after one insert.\<close>

definition Badge :: model where
  "Badge = \<lparr>cls_name = ''Badge'',
             columns = [''id'', ''uuid'', ''organization_id''],
             other_attrs = [],
             own_attrs = [''organization_id''],
             id_python_type_is_UUID = True\<rparr>"

definition badge_row :: row where
  "badge_row = [(''id'', VUuid 21), (''uuid'', VUuid 22), (''organization_id'', VUuid 9)]"

definition badge_session :: session where
  "badge_session =
     demo_session\<lparr>tables := (tables demo_session)(''Badge'' :=
        tables demo_session ''Badge'' @ [badge_row])\<rparr>"

definition user_2_row :: row where
  "user_2_row = [(''id'', VInt 2), (''uuid'', VUuid 8), (''email'', VStr ''d@e.f''),
                 (''organization_id'', VUuid 9), (''is_active'', VBool False)]"

definition user_2_session :: session where
  "user_2_session =
     demo_session\<lparr>tables := (tables demo_session)(''User'' :=
        tables demo_session ''User'' @ [user_2_row])\<rparr>"



section \<open>Facts about the helpers\<close>

lemma foldr_max_le: "(\<forall>x\<in>set xs. f x \<le> (n::nat)) \<Longrightarrow> foldr max (map f xs) 0 \<le> n"
  by (induction xs) auto

lemma dict_set_subset: "set (dict_set d k v) \<subseteq> insert (k, v) (set d)"
  by (induction d k v rule: dict_set.induct) auto

lemma add_fields_subset:
  "set (add_fields_to_json json_obj added) \<subseteq> set json_obj \<union> set added"
proof (induction json_obj added rule: add_fields_to_json.induct)
  case (1 json_obj)
  then show ?case by simp
next
  case (2 json_obj column_name sub_json fields_to_add)
  then show ?case
    using dict_set_subset [of json_obj column_name sub_json] by (auto split: if_splits)
qed

lemma gather_Inr: "gather rs = Inr xs \<Longrightarrow> x \<in> set xs \<Longrightarrow> Inr x \<in> set rs"
proof (induction rs arbitrary: xs rule: gather.induct)
  case 1
  then show ?case by simp
next
  case (2 e rs)
  then show ?case by simp
next
  case (3 y rs)
  then show ?case by (auto split: sum.splits)
qed

lemma gather_map_Inr:
  assumes "gather (map f xs) = Inr ys" and "y \<in> set ys"
  shows "\<exists>x \<in> set xs. f x = Inr y"
proof -
  from gather_Inr [OF assms] have "Inr y \<in> f ` set xs" by simp
  then show ?thesis by auto
qed

section \<open>Unfolding the expander\<close>

lemma get_one_recursive_absent:
  "get_entity_by_id_or_uuid E S item_id m = Inl e
     \<or> get_entity_by_id_or_uuid E S item_id m = Inr None
   \<Longrightarrow> get_one_recursive E S m item_id recursive_depth = Inr (JVal VNone)"
  by (subst get_one_recursive.simps) auto

lemma get_one_recursive_flat:
  "get_entity_by_id_or_uuid E S item_id m = Inr (Some object_result)
   \<Longrightarrow> \<not> 0 < recursive_depth
   \<Longrightarrow> get_one_recursive E S m item_id recursive_depth
       = Inr (JDoc (scalars (object_as_dict object_result)))"
  by (subst get_one_recursive.simps) simp

lemma get_one_recursive_expand:
  "get_entity_by_id_or_uuid E S item_id m = Inr (Some object_result)
   \<Longrightarrow> 0 < recursive_depth
   \<Longrightarrow> get_one_recursive E S m item_id recursive_depth
       = (case expand_columns E
                 (\<lambda>m' value. get_one_recursive E S m' value (recursive_depth - 1))
                 (object_as_dict object_result) of
            Inl e \<Rightarrow> Inl e
          | Inr jsons_to_add \<Rightarrow>
              Inr (JDoc (add_fields_to_json (scalars (object_as_dict object_result))
                     jsons_to_add)))"
  by (subst get_one_recursive.simps) (simp add: Let_def)

section \<open>The depth bound\<close>

lemma expand_column_nest:
  assumes rec: "\<And>m v j. recurse m v = Inr j \<Longrightarrow> nest j \<le> n"
    and ex: "expand_column E recurse item = Inr added"
    and kv: "kv \<in> set added"
  shows "nest (snd kv) \<le> n"
proof (cases "is_model_id_or_uuid (fst item)")
  case True
  with ex kv obtain m where "recurse (Some m) (snd item) = Inr (snd kv)"
    by (auto simp: expand_column_def Let_def split: option.splits sum.splits)
  then show ?thesis by (rule rec)
next
  case False
  with ex kv obtain vals sub_jsons where
    g: "gather (map (recurse (get_model_by_name E (column_name_of (fst item))))
          (filter (\<lambda>val. val \<noteq> VNone) vals)) = Inr sub_jsons"
    and s: "snd kv = JList sub_jsons"
    by (auto simp: expand_column_def Let_def split: if_splits sum.splits)
  have "\<forall>j \<in> set sub_jsons. nest j \<le> n"
  proof
    fix j assume "j \<in> set sub_jsons"
    from gather_map_Inr [OF g this] obtain v where
      "recurse (get_model_by_name E (column_name_of (fst item))) v = Inr j" by blast
    then show "nest j \<le> n" by (rule rec)
  qed
  then show ?thesis unfolding s by (simp add: foldr_max_le)
qed

lemma expand_columns_nest:
  assumes rec: "\<And>m v j. recurse m v = Inr j \<Longrightarrow> nest j \<le> n"
  shows "expand_columns E recurse items = Inr added \<Longrightarrow> kv \<in> set added
    \<Longrightarrow> nest (snd kv) \<le> n"
proof (induction items arbitrary: added)
  case Nil
  then show ?case by simp
next
  case (Cons item items)
  from Cons.prems(1) obtain a r where
    a: "expand_column E recurse item = Inr a"
    and r: "expand_columns E recurse items = Inr r"
    and ad: "added = a @ r"
    by (auto split: sum.splits)
  from Cons.prems(2) ad have "kv \<in> set a \<or> kv \<in> set r" by simp
  then show ?case
  proof
    assume "kv \<in> set a"
    with a show ?thesis using expand_column_nest [of recurse n E item a kv] rec by blast
  next
    assume "kv \<in> set r"
    with r show ?thesis using Cons.IH by blast
  qed
qed

lemma scalars_nest: "kv \<in> set (scalars d) \<Longrightarrow> nest (snd kv) = 0"
  by (auto simp: scalars_def)

lemma get_one_recursive_nest:
  "get_one_recursive E S m item_id recursive_depth = Inr j
   \<Longrightarrow> nest j \<le> Suc (nat recursive_depth)"
proof (induction E S m item_id recursive_depth arbitrary: j rule: get_one_recursive.induct)
  case (1 E S m item_id recursive_depth)
  show ?case
  proof (cases "get_entity_by_id_or_uuid E S item_id m")
    case (Inl e)
    with 1(2) show ?thesis by (auto simp: get_one_recursive_absent)
  next
    case (Inr ro)
    show ?thesis
    proof (cases ro)
      case None
      with Inr 1(2) show ?thesis by (auto simp: get_one_recursive_absent)
    next
      case (Some object_result)
      show ?thesis
      proof (cases "recursive_depth > 0")
        case False
        with Inr Some 1(2) have "j = JDoc (scalars (object_as_dict object_result))"
          by (simp add: get_one_recursive_flat)
        moreover have "\<forall>kv \<in> set (scalars (object_as_dict object_result)).
            nest (snd kv) \<le> nat recursive_depth"
          by (simp add: scalars_nest)
        ultimately show ?thesis by (simp add: foldr_max_le)
      next
        case True
        have IH: "\<And>m' v j'. get_one_recursive E S m' v (recursive_depth - 1) = Inr j'
            \<Longrightarrow> nest j' \<le> nat recursive_depth"
          using 1(1) [OF Inr Some refl True] True by fastforce
        from Inr Some True 1(2) obtain jsons_to_add where
          ex: "expand_columns E
                 (\<lambda>m' value. get_one_recursive E S m' value (recursive_depth - 1))
                 (object_as_dict object_result) = Inr jsons_to_add"
          and j: "j = JDoc (add_fields_to_json (scalars (object_as_dict object_result))
                     jsons_to_add)"
          by (auto simp: get_one_recursive_expand split: sum.splits)
        have "\<forall>kv \<in> set (add_fields_to_json (scalars (object_as_dict object_result))
                  jsons_to_add). nest (snd kv) \<le> nat recursive_depth"
        proof
          fix kv
          assume "kv \<in> set (add_fields_to_json (scalars (object_as_dict object_result))
                    jsons_to_add)"
          then have "kv \<in> set (scalars (object_as_dict object_result))
              \<or> kv \<in> set jsons_to_add"
            using add_fields_subset by blast
          then show "nest (snd kv) \<le> nat recursive_depth"
            using scalars_nest expand_columns_nest [OF IH ex] by fastforce
        qed
        then show ?thesis unfolding j by (simp add: foldr_max_le)
      qed
    qed
  qed
qed

lemma get_one_recursive_depth_zero:
  "get_one_recursive E S m item_id 0 = Inr j
   \<Longrightarrow> j = JVal VNone
       \<or> (\<exists>object_result. get_entity_by_id_or_uuid E S item_id m = Inr (Some object_result)
            \<and> j = JDoc (scalars (object_as_dict object_result)))"
proof (cases "get_entity_by_id_or_uuid E S item_id m")
  case (Inl e)
  assume "get_one_recursive E S m item_id 0 = Inr j"
  with Inl show ?thesis by (auto simp: get_one_recursive_absent)
next
  case (Inr ro)
  assume g: "get_one_recursive E S m item_id 0 = Inr j"
  show ?thesis
  proof (cases ro)
    case None
    with Inr g show ?thesis by (auto simp: get_one_recursive_absent)
  next
    case (Some object_result)
    with Inr g show ?thesis by (auto simp: get_one_recursive_flat)
  qed
qed

text \<open>
  C1. For every entity and every recursion depth \<open>N \<ge> 0\<close>, the document returned by the
  recursive expander holds no nesting deeper than \<open>N\<close> relationship hops below its root;
  at depth 0 it is the dictionary of the base row's column values, none of them a nested
  document.
\<close>

theorem get_one_recursive_depth_bound:
  assumes "0 \<le> N" and "get_one_recursive E S m item_id N = Inr j"
  shows "hops j \<le> nat N
     \<and> (N = 0 \<longrightarrow> j = JVal VNone
          \<or> (\<exists>object_result.
                get_entity_by_id_or_uuid E S item_id m = Inr (Some object_result)
                \<and> j = JDoc (scalars (object_as_dict object_result))
                \<and> (\<forall>kv \<in> set (scalars (object_as_dict object_result)).
                      \<exists>v. snd kv = JVal v)))"
proof
  from get_one_recursive_nest [OF assms(2)] show "hops j \<le> nat N"
    by (simp add: hops_def)
next
  show "N = 0 \<longrightarrow> j = JVal VNone
          \<or> (\<exists>object_result.
                get_entity_by_id_or_uuid E S item_id m = Inr (Some object_result)
                \<and> j = JDoc (scalars (object_as_dict object_result))
                \<and> (\<forall>kv \<in> set (scalars (object_as_dict object_result)).
                      \<exists>v. snd kv = JVal v))"
  proof
    assume "N = 0"
    with assms(2) get_one_recursive_depth_zero [of E S m item_id j]
    have "j = JVal VNone
       \<or> (\<exists>object_result. get_entity_by_id_or_uuid E S item_id m = Inr (Some object_result)
            \<and> j = JDoc (scalars (object_as_dict object_result)))"
      by simp
    moreover have "\<And>d. \<forall>kv \<in> set (scalars d). \<exists>v. snd kv = JVal v"
      by (auto simp: scalars_def)
    ultimately show "j = JVal VNone
          \<or> (\<exists>object_result.
                get_entity_by_id_or_uuid E S item_id m = Inr (Some object_result)
                \<and> j = JDoc (scalars (object_as_dict object_result))
                \<and> (\<forall>kv \<in> set (scalars (object_as_dict object_result)).
                      \<exists>v. snd kv = JVal v))"
      by blast
  qed
qed

lemma demo_user_depth_1:
  "get_one_recursive demo_env demo_session (Some User) (VInt 1) 1 =
     Inr (JDoc
       [(''id'', JVal (VInt 1)), (''uuid'', JVal (VUuid 7)),
        (''email'', JVal (VStr ''a@b.c'')),
        (''organization_id'', JVal (VUuid 9)),
        (''is_active'', JVal (VBool True)),
        (''organization'',
         JDoc [(''id'', JVal (VUuid 9)), (''name'', JVal (VStr ''Acme''))])])"
  by code_simp

theorem get_one_recursive_depth_bound_witness:
  "(0::int) \<le> 1
   \<and> get_one_recursive demo_env demo_session (Some User) (VInt 1) 1 =
       Inr (JDoc
         [(''id'', JVal (VInt 1)), (''uuid'', JVal (VUuid 7)),
          (''email'', JVal (VStr ''a@b.c'')),
          (''organization_id'', JVal (VUuid 9)),
          (''is_active'', JVal (VBool True)),
          (''organization'',
           JDoc [(''id'', JVal (VUuid 9)), (''name'', JVal (VStr ''Acme''))])])
   \<and> hops (JDoc
         [(''id'', JVal (VInt 1)), (''uuid'', JVal (VUuid 7)),
          (''email'', JVal (VStr ''a@b.c'')),
          (''organization_id'', JVal (VUuid 9)),
          (''is_active'', JVal (VBool True)),
          (''organization'',
           JDoc [(''id'', JVal (VUuid 9)), (''name'', JVal (VStr ''Acme''))])]) \<le> nat 1"
  using get_one_recursive_depth_bound [OF _ demo_user_depth_1] demo_user_depth_1 by simp

section \<open>The filter translator\<close>

lemma endswith_simps:
  "endswith ''organization_id'' ''id''"
  "\<not> endswith ''organization_id'' ''ids''"
  "\<not> endswith ''organization_id'' ''uuids''"
  "\<not> endswith ''is_active'' ''id''"
  "\<not> endswith ''is_active'' ''uuid''"
  "\<not> endswith ''is_active'' ''ids''"
  "\<not> endswith ''is_active'' ''uuids''"
  by (simp_all add: endswith_def)

text \<open>
  C5. For a mapped class with the attributes \<open>organization_id\<close> and \<open>is_active\<close>, the
  mapping \<^verbatim>\<open>{"organization_id": [a, b], "is_active": true}\<close> translates to exactly two
  predicates: membership of \<open>organization_id\<close> in the list and the equality
  \<open>is_active = true\<close>.
\<close>

theorem filter_composition:
  assumes "hasattr m ''organization_id''" and "hasattr m ''is_active''"
  shows "process_filters_of_query_parameters E m []
           [(''organization_id'', VList [VStr a, VStr b]), (''is_active'', VBool True)]
         = Inr [In_list ''organization_id'' (VList [VStr a, VStr b]),
                Eq ''is_active'' (VBool True)]"
  using assms
  by (simp add: process_filters_of_query_parameters_def dict_get_def filters_of_param_def
      then_append_def stringify_uuids_def is_list_def is_bool_def
      is_model_id_or_uuid_def is_model_ids_or_uuids_def endswith_simps)

theorem filter_composition_witness:
  "hasattr User ''organization_id'' \<and> hasattr User ''is_active''
   \<and> process_filters_of_query_parameters demo_env User []
         [(''organization_id'', VList [VStr ''A'', VStr ''B'']), (''is_active'', VBool True)]
       = Inr [In_list ''organization_id'' (VList [VStr ''A'', VStr ''B'']),
              Eq ''is_active'' (VBool True)]"
  using filter_composition [where m = User and a = "''A''" and b = "''B''" and E = demo_env]
  by (simp add: hasattr_def User_def)

section \<open>Listing\<close>

text \<open>
  C10. When the query-parameter mapping is not empty and the translator produces no
  predicate from it, the list operation raises: the local \<^verbatim>\<open>offset\<close> is read before it
  is bound, so the unfiltered list is never returned. A mapping of \<^verbatim>\<open>limit\<close> and
  \<^verbatim>\<open>offset\<close> alone is such a mapping.
\<close>

theorem unbound_pagination:
  assumes "hasattr m ''id''" and "query_parameters \<noteq> []"
    and "process_filters_of_query_parameters E m [] query_parameters = Inr []"
  shows "get_all_entities_from_db E S m query_parameters recursive_depth
         = Inl (UnboundLocalError ''offset'')"
  using assms
  by (simp add: get_all_entities_from_db_def get_all_recursive_def paginate_def)

lemma limit_offset_no_filter:
  "process_filters_of_query_parameters E m [] [(''limit'', VInt l), (''offset'', VInt off)] = Inr []"
  by (simp add: process_filters_of_query_parameters_def dict_get_def filters_of_param_def
      then_append_def is_bool_def stringify_uuids_def
      is_model_id_or_uuid_def is_model_ids_or_uuids_def endswith_def)

theorem unbound_pagination_witness:
  "hasattr User ''id'' \<and> [(''limit'', VInt 10), (''offset'', VInt 2)] \<noteq> []
   \<and> process_filters_of_query_parameters demo_env User []
         [(''limit'', VInt 10), (''offset'', VInt 2)] = Inr []
   \<and> get_all_entities_from_db demo_env demo_session User
         [(''limit'', VInt 10), (''offset'', VInt 2)] 4 = Inl (UnboundLocalError ''offset'')"
  using unbound_pagination [where m = User and E = demo_env and S = demo_session
      and query_parameters = "[(''limit'', VInt 10), (''offset'', VInt 2)]"
      and recursive_depth = 4]
    limit_offset_no_filter [of demo_env User 10 2]
  by (simp add: hasattr_def User_def)

lemma time_filter_raises:
  assumes "truthy (dict_get query_parameters ''time_start'')
           \<or> truthy (dict_get query_parameters ''time_finish'')"
  shows "\<exists>e. process_filters_of_query_parameters E m filters query_parameters = Inl e"
proof -
  have ne: "query_parameters \<noteq> []" using assms by (auto simp: dict_get_def)
  have t: "\<exists>e. then_append (time_filter E m query_parameters ''time_start'' ''datetime_start'' Ge)
                 (time_filter E m query_parameters ''time_finish'' ''datetime_finish'' Le) = Inl e"
    using assms by (auto simp: then_append_def time_filter_def self_parse_datetime_def)
  show ?thesis using ne t assms
    by (auto simp: process_filters_of_query_parameters_def then_append_def Let_def split: sum.splits)
qed

text \<open>
  C6. A non-empty string under \<^verbatim>\<open>time_start\<close>, parseable or not, never reaches a
  parser: the repository has no \<^verbatim>\<open>parse_datetime\<close>, the lookup raises
  \<^verbatim>\<open>AttributeError\<close>, and the service wraps that error, whose text names the missing
  attribute and not the input, into its \<^verbatim>\<open>BadRequestException\<close>.
\<close>

theorem temporal_filter_bad_request:
  assumes "hasattr m ''id''" and "s \<noteq> []"
  shows "get_all_entities E S m get_response_scheme [(''time_start'', VStr s)] recursive_depth
         = Inl (BadRequestException (AttributeError ''parse_datetime''))"
  using assms
  by (simp add: get_all_entities_def get_all_entities_from_db_def get_all_recursive_def
      process_filters_of_query_parameters_def dict_get_def filters_of_param_def
      then_append_def is_bool_def stringify_uuids_def time_filter_def self_parse_datetime_def
      is_model_id_or_uuid_def is_model_ids_or_uuids_def endswith_def)

theorem temporal_filter_bad_request_witness:
  "hasattr User ''id'' \<and> ''not-a-date'' \<noteq> []
   \<and> get_all_entities demo_env demo_session User Inr [(''time_start'', VStr ''not-a-date'')] 4
       = Inl (BadRequestException (AttributeError ''parse_datetime''))
   \<and> get_all_entities demo_env demo_session User Inr
         [(''time_start'', VStr ''2024-01-01T00:00:00'')] 4
       = Inl (BadRequestException (AttributeError ''parse_datetime''))"
  using temporal_filter_bad_request [where m = User and s = "''not-a-date''"
      and E = demo_env and S = demo_session and get_response_scheme = Inr
      and recursive_depth = 4]
    temporal_filter_bad_request [where m = User and s = "''2024-01-01T00:00:00''"
      and E = demo_env and S = demo_session and get_response_scheme = Inr
      and recursive_depth = 4]
  by (simp add: hasattr_def User_def)

section \<open>Failures during expansion\<close>

lemma gather_Inl: "gather rs = Inl e \<Longrightarrow> Inl e \<in> set rs"
proof (induction rs rule: gather.induct)
  case 1
  then show ?case by simp
next
  case (2 e' rs)
  then show ?case by simp
next
  case (3 y rs)
  then show ?case by (auto split: sum.splits)
qed

lemma gather_all_Inr:
  "(\<forall>x \<in> set xs. \<exists>y. f x = Inr y)
   \<Longrightarrow> gather (map f xs) = Inr (map (\<lambda>x. case f x of Inr y \<Rightarrow> y | Inl e \<Rightarrow> d) xs)"
  by (induction xs) auto

lemma expand_column_error:
  assumes rec: "\<And>m v e. recurse m v = Inl e \<Longrightarrow> e = TypeError"
    and ex: "expand_column E recurse item = Inl e"
  shows "e = TypeError"
proof (cases "is_model_id_or_uuid (fst item)")
  case True
  with ex obtain m where "recurse (Some m) (snd item) = Inl e"
    by (auto simp: expand_column_def Let_def split: option.splits sum.splits)
  then show ?thesis by (rule rec)
next
  case False
  with ex have pl: "is_model_ids_or_uuids (fst item)" and nn: "snd item \<noteq> VNone"
    by (auto simp: expand_column_def Let_def split: if_splits)
  show ?thesis
  proof (cases "py_iter (snd item)")
    case (Inl e')
    then have "e' = TypeError" by (cases "snd item") auto
    with Inl False pl nn ex show ?thesis by (simp add: expand_column_def Let_def)
  next
    case (Inr vals)
    with False pl nn ex have
      "gather (map (recurse (get_model_by_name E (column_name_of (fst item))))
          (filter (\<lambda>val. val \<noteq> VNone) vals)) = Inl e"
      by (auto simp: expand_column_def Let_def split: sum.splits)
    from gather_Inl [OF this] obtain v where
      "recurse (get_model_by_name E (column_name_of (fst item))) v = Inl e" by auto
    then show ?thesis by (rule rec)
  qed
qed

lemma expand_columns_error:
  assumes rec: "\<And>m v e. recurse m v = Inl e \<Longrightarrow> e = TypeError"
  shows "expand_columns E recurse items = Inl e \<Longrightarrow> e = TypeError"
proof (induction items)
  case Nil
  then show ?case by simp
next
  case (Cons item items)
  show ?case
  proof (cases "expand_column E recurse item")
    case (Inl e')
    with Cons.prems have "e' = e" by simp
    with Inl expand_column_error [of recurse E item e] rec show ?thesis by blast
  next
    case (Inr a)
    with Cons.prems have "expand_columns E recurse items = Inl e"
      by (auto split: sum.splits)
    then show ?thesis by (rule Cons.IH)
  qed
qed

lemma get_one_recursive_error:
  "get_one_recursive E S m item_id recursive_depth = Inl e \<Longrightarrow> e = TypeError"
proof (induction E S m item_id recursive_depth arbitrary: e rule: get_one_recursive.induct)
  case (1 E S m item_id recursive_depth)
  show ?case
  proof (cases "get_entity_by_id_or_uuid E S item_id m")
    case (Inl e')
    with 1(2) show ?thesis by (auto simp: get_one_recursive_absent)
  next
    case (Inr ro)
    show ?thesis
    proof (cases ro)
      case None
      with Inr 1(2) show ?thesis by (auto simp: get_one_recursive_absent)
    next
      case (Some object_result)
      show ?thesis
      proof (cases "recursive_depth > 0")
        case False
        with Inr Some 1(2) show ?thesis by (simp add: get_one_recursive_flat)
      next
        case True
        have IH: "\<And>m' v e'. get_one_recursive E S m' v (recursive_depth - 1) = Inl e'
            \<Longrightarrow> e' = TypeError"
          using 1(1) [OF Inr Some refl True] by blast
        from Inr Some True 1(2) have
          "expand_columns E
             (\<lambda>m' value. get_one_recursive E S m' value (recursive_depth - 1))
             (object_as_dict object_result) = Inl e"
          by (auto simp: get_one_recursive_expand split: sum.splits)
        then show ?thesis
          using expand_columns_error
            [of "\<lambda>m' value. get_one_recursive E S m' value (recursive_depth - 1)"
              E "object_as_dict object_result" e] IH
          by blast
      qed
    qed
  qed
qed

lemma expand_column_plural:
  assumes "\<not> is_model_id_or_uuid column" and "is_model_ids_or_uuids column"
    and "py_iter value = Inr vals"
    and "\<forall>v \<in> set vals. v \<noteq> VNone \<longrightarrow> (\<exists>j. recurse (get_model_by_name E (column_name_of column)) v = Inr j)"
  shows "expand_column E recurse (column, value) =
           Inr [(column_name_of column @ ''s'',
                 JList (map (\<lambda>v. case recurse (get_model_by_name E (column_name_of column)) v of
                                  Inr j \<Rightarrow> j | Inl e \<Rightarrow> JVal VNone)
                          (filter (\<lambda>val. val \<noteq> VNone) vals)))]"
proof -
  from assms(3) have nn: "value \<noteq> VNone" by auto
  have "gather (map (recurse (get_model_by_name E (column_name_of column)))
           (filter (\<lambda>val. val \<noteq> VNone) vals))
        = Inr (map (\<lambda>v. case recurse (get_model_by_name E (column_name_of column)) v of
                          Inr j \<Rightarrow> j | Inl e \<Rightarrow> JVal VNone)
                 (filter (\<lambda>val. val \<noteq> VNone) vals))"
    by (rule gather_all_Inr) (use assms(4) in auto)
  with assms(1-3) nn show ?thesis by (simp add: expand_column_def Let_def)
qed

text \<open>
  A storage failure in one branch of a fan-out does not propagate: the lookup of user 5
  raises during the outage, and the expansion of the team still returns, with user 1
  expanded and the failed branch as \<^verbatim>\<open>None\<close>.
\<close>

theorem fan_out_store_failure_counterexample:
  "get_entity_by_id_or_uuid demo_env outage_session (VInt 5) (Some User) = Inl StoreError
   \<and> get_one_recursive demo_env outage_session (Some Team) (VInt 1) 1 =
       Inr (JDoc
         [(''id'', JVal (VInt 1)),
          (''user_ids'', JVal (VList [VInt 1, VInt 5])),
          (''tag_ids'', JVal (VList [VInt 3])),
          (''users'',
           JList
            [JDoc
              [(''id'', JVal (VInt 1)), (''uuid'', JVal (VUuid 7)),
               (''email'', JVal (VStr ''a@b.c'')),
               (''organization_id'', JVal (VUuid 9)),
               (''is_active'', JVal (VBool True))],
             JVal VNone]),
          (''tags'', JList [JVal VNone])])"
  by code_simp

text \<open>
  C4, as the code has it. In the fan-out over a plural field every branch contributes its
  own result, in input order; a branch whose base fetch raises, whatever the exception and
  a storage failure included, resolves to \<^verbatim>\<open>None\<close>; and no storage failure ever leaves the
  expander. The only exception that can escape a branch is the \<^verbatim>\<open>TypeError\<close> of iterating
  a plural field whose value is not iterable.
\<close>

theorem fan_out_failures_are_null:
  assumes "\<not> is_model_id_or_uuid column" and "is_model_ids_or_uuids column"
    and "py_iter value = Inr vals"
    and "\<forall>v \<in> set vals.
           get_one_recursive E S (get_model_by_name E (column_name_of column)) v d
             \<noteq> Inl TypeError"
  shows "expand_column E (\<lambda>m v. get_one_recursive E S m v d) (column, value) =
           Inr [(column_name_of column @ ''s'',
                 JList (map (\<lambda>v. case get_one_recursive E S
                                         (get_model_by_name E (column_name_of column)) v d of
                                  Inr j \<Rightarrow> j | Inl e \<Rightarrow> JVal VNone)
                          (filter (\<lambda>val. val \<noteq> VNone) vals)))]
     \<and> (\<forall>v e. get_entity_by_id_or_uuid E S v (get_model_by_name E (column_name_of column))
                  = Inl e
              \<longrightarrow> get_one_recursive E S (get_model_by_name E (column_name_of column)) v d
                    = Inr (JVal VNone))
     \<and> (\<forall>m v. get_one_recursive E S m v d \<noteq> Inl StoreError)"
proof (intro conjI)
  have "\<forall>v \<in> set vals. v \<noteq> VNone \<longrightarrow>
          (\<exists>j. get_one_recursive E S (get_model_by_name E (column_name_of column)) v d = Inr j)"
  proof (intro ballI impI)
    fix v assume "v \<in> set vals"
    with assms(4) have
      "get_one_recursive E S (get_model_by_name E (column_name_of column)) v d \<noteq> Inl TypeError"
      by blast
    then show "\<exists>j. get_one_recursive E S (get_model_by_name E (column_name_of column)) v d = Inr j"
      using get_one_recursive_error
      by (cases "get_one_recursive E S (get_model_by_name E (column_name_of column)) v d") auto
  qed
  then show "expand_column E (\<lambda>m v. get_one_recursive E S m v d) (column, value) =
           Inr [(column_name_of column @ ''s'',
                 JList (map (\<lambda>v. case get_one_recursive E S
                                         (get_model_by_name E (column_name_of column)) v d of
                                  Inr j \<Rightarrow> j | Inl e \<Rightarrow> JVal VNone)
                          (filter (\<lambda>val. val \<noteq> VNone) vals)))]"
    using expand_column_plural [OF assms(1-3),
        of "\<lambda>m v. get_one_recursive E S m v d" E] by simp
next
  show "\<forall>v e. get_entity_by_id_or_uuid E S v (get_model_by_name E (column_name_of column))
                  = Inl e
              \<longrightarrow> get_one_recursive E S (get_model_by_name E (column_name_of column)) v d
                    = Inr (JVal VNone)"
    by (simp add: get_one_recursive_absent)
next
  show "\<forall>m v. get_one_recursive E S m v d \<noteq> Inl StoreError"
    using get_one_recursive_error by fastforce
qed

lemma demo_user_ids_plural:
  "\<not> is_model_id_or_uuid ''user_ids''" "is_model_ids_or_uuids ''user_ids''"
  "column_name_of ''user_ids'' = ''user''"
  "get_model_by_name demo_env ''user'' = Some User"
  by code_simp+

lemma outage_user_5:
  "get_entity_by_id_or_uuid demo_env outage_session (VInt 5) (Some User) = Inl StoreError"
  by code_simp

lemma outage_users:
  "get_one_recursive demo_env outage_session (Some User) (VInt 1) 0 =
     Inr (JDoc [(''id'', JVal (VInt 1)), (''uuid'', JVal (VUuid 7)),
                (''email'', JVal (VStr ''a@b.c'')),
                (''organization_id'', JVal (VUuid 9)),
                (''is_active'', JVal (VBool True))])"
  "get_one_recursive demo_env outage_session (Some User) (VInt 5) 0 = Inr (JVal VNone)"
  by code_simp+

lemma outage_branches:
  "\<forall>v \<in> set [VInt 1, VInt 5].
      get_one_recursive demo_env outage_session (Some User) v 0 \<noteq> Inl TypeError"
  by code_simp

theorem fan_out_failures_are_null_witness:
  "\<not> is_model_id_or_uuid ''user_ids'' \<and> is_model_ids_or_uuids ''user_ids''
   \<and> py_iter (VList [VInt 1, VInt 5]) = Inr [VInt 1, VInt 5]
   \<and> get_one_recursive demo_env outage_session (Some User) (VInt 1) 0 =
        Inr (JDoc [(''id'', JVal (VInt 1)), (''uuid'', JVal (VUuid 7)),
                   (''email'', JVal (VStr ''a@b.c'')),
                   (''organization_id'', JVal (VUuid 9)),
                   (''is_active'', JVal (VBool True))])
   \<and> get_entity_by_id_or_uuid demo_env outage_session (VInt 5) (Some User) = Inl StoreError
   \<and> get_one_recursive demo_env outage_session (Some User) (VInt 5) 0 = Inr (JVal VNone)
   \<and> expand_column demo_env (\<lambda>m v. get_one_recursive demo_env outage_session m v 0)
         (''user_ids'', VList [VInt 1, VInt 5]) =
       Inr [(''users'',
             JList [JDoc [(''id'', JVal (VInt 1)), (''uuid'', JVal (VUuid 7)),
                          (''email'', JVal (VStr ''a@b.c'')),
                          (''organization_id'', JVal (VUuid 9)),
                          (''is_active'', JVal (VBool True))],
                    JVal VNone])]"
proof -
  have py: "py_iter (VList [VInt 1, VInt 5]) = Inr [VInt 1, VInt 5]" by simp
  have br: "\<forall>v \<in> set [VInt 1, VInt 5].
      get_one_recursive demo_env outage_session
        (get_model_by_name demo_env (column_name_of ''user_ids'')) v 0 \<noteq> Inl TypeError"
    using outage_branches by (simp add: demo_user_ids_plural)
  from fan_out_failures_are_null [OF demo_user_ids_plural(1,2) py br]
  show ?thesis
    using outage_user_5 outage_users by (simp add: demo_user_ids_plural)
qed


lemma add_fields_all_null:
  "\<forall>kv \<in> set added. snd kv = JVal VNone \<Longrightarrow> add_fields_to_json json_obj added = json_obj"
  by (induction json_obj added rule: add_fields_to_json.induct) auto

lemma add_fields_append:
  "add_fields_to_json json_obj (a @ b) = add_fields_to_json (add_fields_to_json json_obj a) b"
  by (induction json_obj a rule: add_fields_to_json.induct) auto

section \<open>References that do not resolve\<close>

text \<open>
  In a plural field a reference that does not resolve is not omitted: user 5 does not
  exist and \<open>Tag\<close> is no mapped class, yet \<open>users\<close> and \<open>tags\<close> are added, with
  \<^verbatim>\<open>None\<close> in the place of each such element.
\<close>

theorem unresolved_plural_counterexample:
  "get_model_by_name demo_env (column_name_of ''tag_ids'') = None
   \<and> get_model_by_name demo_env (column_name_of ''user_ids'') = Some User
   \<and> get_entity_by_id_or_uuid demo_env demo_session (VInt 5) (Some User) = Inr None
   \<and> get_one_recursive demo_env demo_session (Some Team) (VInt 1) 1 =
       Inr (JDoc
         [(''id'', JVal (VInt 1)),
          (''user_ids'', JVal (VList [VInt 1, VInt 5])),
          (''tag_ids'', JVal (VList [VInt 3])),
          (''users'',
           JList
            [JDoc
              [(''id'', JVal (VInt 1)), (''uuid'', JVal (VUuid 7)),
               (''email'', JVal (VStr ''a@b.c'')),
               (''organization_id'', JVal (VUuid 9)),
               (''is_active'', JVal (VBool True))],
             JVal VNone]),
          (''tags'', JList [JVal VNone])])"
  by code_simp

lemma map_of_dict_set: "map_of (dict_set d k v) k' = (if k' = k then Some v else map_of d k')"
  by (induction d k v rule: dict_set.induct) auto

lemma unresolved_singular:
  assumes "is_model_id_or_uuid column"
    and "get_model_by_name E (column_name_of column) = None
         \<or> (\<exists>m. get_model_by_name E (column_name_of column) = Some m
               \<and> (get_entity_by_id_or_uuid E S value (Some m) = Inr None
                    \<or> (\<exists>e. get_entity_by_id_or_uuid E S value (Some m) = Inl e)))"
  shows "\<exists>added. expand_column E (\<lambda>m v. get_one_recursive E S m v d) (column, value)
                    = Inr added
           \<and> (\<forall>json_obj. add_fields_to_json json_obj added = json_obj)"
  using assms(2)
proof (elim disjE exE conjE)
  assume "get_model_by_name E (column_name_of column) = None"
  with assms(1) have "expand_column E (\<lambda>m v. get_one_recursive E S m v d) (column, value)
      = Inr []"
    by (simp add: expand_column_def Let_def)
  then show ?thesis by simp
next
  fix m
  assume m: "get_model_by_name E (column_name_of column) = Some m"
    and "get_entity_by_id_or_uuid E S value (Some m) = Inr None"
  then have "get_one_recursive E S (Some m) value d = Inr (JVal VNone)"
    by (simp add: get_one_recursive_absent)
  with assms(1) m have "expand_column E (\<lambda>m v. get_one_recursive E S m v d) (column, value)
      = Inr [(column_name_of column, JVal VNone)]"
    by (simp add: expand_column_def Let_def)
  then show ?thesis by simp
next
  fix m e
  assume m: "get_model_by_name E (column_name_of column) = Some m"
    and "get_entity_by_id_or_uuid E S value (Some m) = Inl e"
  then have "get_one_recursive E S (Some m) value d = Inr (JVal VNone)"
    by (simp add: get_one_recursive_absent)
  with assms(1) m have "expand_column E (\<lambda>m v. get_one_recursive E S m v d) (column, value)
      = Inr [(column_name_of column, JVal VNone)]"
    by (simp add: expand_column_def Let_def)
  then show ?thesis by simp
qed

lemma unresolved_plural_element:
  assumes "\<not> is_model_id_or_uuid column" and "is_model_ids_or_uuids column"
    and m: "get_model_by_name E (column_name_of column) = Some m"
    and "py_iter value = Inr vals"
    and "\<forall>v \<in> set vals. get_one_recursive E S (Some m) v d \<noteq> Inl TypeError"
  shows "\<exists>sub_jsons.
           expand_column E (\<lambda>m v. get_one_recursive E S m v d) (column, value)
             = Inr [(column_name_of column @ ''s'', JList sub_jsons)]
           \<and> sub_jsons = map (\<lambda>v. case get_one_recursive E S (Some m) v d of
                                     Inr j \<Rightarrow> j | Inl e \<Rightarrow> JVal VNone)
                            (filter (\<lambda>val. val \<noteq> VNone) vals)
           \<and> (\<forall>json_obj.
                 map_of (add_fields_to_json json_obj
                           [(column_name_of column @ ''s'', JList sub_jsons)])
                   (column_name_of column @ ''s'') = Some (JList sub_jsons))"
proof -
  have "\<forall>v \<in> set vals. v \<noteq> VNone \<longrightarrow>
          (\<exists>j. get_one_recursive E S (get_model_by_name E (column_name_of column)) v d = Inr j)"
  proof (intro ballI impI)
    fix v assume "v \<in> set vals"
    with assms(5) have "get_one_recursive E S (Some m) v d \<noteq> Inl TypeError" by blast
    then show "\<exists>j. get_one_recursive E S (get_model_by_name E (column_name_of column)) v d
        = Inr j"
      using get_one_recursive_error m
      by (cases "get_one_recursive E S (Some m) v d") auto
  qed
  from expand_column_plural [OF assms(1,2,4),
      of "\<lambda>m v. get_one_recursive E S m v d" E, OF this] m
  show ?thesis by (simp add: map_of_dict_set)
qed

text \<open>
  C9, as the code has it. A singular foreign-key-shaped field whose derived name is no
  mapped class, or whose referenced entity is absent or cannot be fetched, adds nothing to
  the parent document and raises nothing. A plural field of a mapped class adds its key,
  with one element per non-null input and \<^verbatim>\<open>None\<close> for each element that does not
  resolve.
\<close>

theorem unresolved_reference_expansion:
  "(is_model_id_or_uuid column
      \<and> (get_model_by_name E (column_name_of column) = None
           \<or> (\<exists>m. get_model_by_name E (column_name_of column) = Some m
                 \<and> (get_entity_by_id_or_uuid E S value (Some m) = Inr None
                      \<or> (\<exists>e. get_entity_by_id_or_uuid E S value (Some m) = Inl e))))
    \<longrightarrow> (\<exists>added. expand_column E (\<lambda>m v. get_one_recursive E S m v d) (column, value)
                     = Inr added
            \<and> (\<forall>json_obj. add_fields_to_json json_obj added = json_obj)))
   \<and> (\<not> is_model_id_or_uuid column \<and> is_model_ids_or_uuids column
      \<and> get_model_by_name E (column_name_of column) = Some m
      \<and> py_iter value = Inr vals
      \<and> (\<forall>v \<in> set vals. get_one_recursive E S (Some m) v d \<noteq> Inl TypeError)
    \<longrightarrow> (\<exists>sub_jsons.
           expand_column E (\<lambda>m v. get_one_recursive E S m v d) (column, value)
             = Inr [(column_name_of column @ ''s'', JList sub_jsons)]
           \<and> sub_jsons = map (\<lambda>v. case get_one_recursive E S (Some m) v d of
                                     Inr j \<Rightarrow> j | Inl e \<Rightarrow> JVal VNone)
                            (filter (\<lambda>val. val \<noteq> VNone) vals)
           \<and> (\<forall>json_obj.
                 map_of (add_fields_to_json json_obj
                           [(column_name_of column @ ''s'', JList sub_jsons)])
                   (column_name_of column @ ''s'') = Some (JList sub_jsons))))"
  using unresolved_singular [of column E S "value" d]
    unresolved_plural_element [of column E m "value" vals S d]
  by blast

lemma demo_manager_id:
  "is_model_id_or_uuid ''manager_id''"
  "get_model_by_name demo_env (column_name_of ''manager_id'') = None"
  by code_simp+

lemma demo_user_5:
  "\<forall>v \<in> set [VInt 1, VInt 5].
      get_one_recursive demo_env demo_session (Some User) v 0 \<noteq> Inl TypeError"
  "get_one_recursive demo_env demo_session (Some User) (VInt 5) 0 = Inr (JVal VNone)"
  "get_one_recursive demo_env demo_session (Some User) (VInt 1) 0 =
     Inr (JDoc [(''id'', JVal (VInt 1)), (''uuid'', JVal (VUuid 7)),
               (''email'', JVal (VStr ''a@b.c'')),
               (''organization_id'', JVal (VUuid 9)),
               (''is_active'', JVal (VBool True))])"
  by code_simp+

theorem unresolved_reference_expansion_witness:
  "is_model_id_or_uuid ''manager_id''
   \<and> get_model_by_name demo_env (column_name_of ''manager_id'') = None
   \<and> (\<exists>added. expand_column demo_env (\<lambda>m v. get_one_recursive demo_env demo_session m v 1)
                   (''manager_id'', VInt 4) = Inr added
          \<and> (\<forall>json_obj. add_fields_to_json json_obj added = json_obj))
   \<and> \<not> is_model_id_or_uuid ''user_ids'' \<and> is_model_ids_or_uuids ''user_ids''
   \<and> get_model_by_name demo_env (column_name_of ''user_ids'') = Some User
   \<and> py_iter (VList [VInt 1, VInt 5]) = Inr [VInt 1, VInt 5]
   \<and> get_entity_by_id_or_uuid demo_env demo_session (VInt 5) (Some User) = Inr None
   \<and> get_one_recursive demo_env demo_session (Some User) (VInt 5) 0 = Inr (JVal VNone)
   \<and> expand_column demo_env (\<lambda>m v. get_one_recursive demo_env demo_session m v 0)
         (''user_ids'', VList [VInt 1, VInt 5]) =
       Inr [(''users'',
             JList [JDoc [(''id'', JVal (VInt 1)), (''uuid'', JVal (VUuid 7)),
                          (''email'', JVal (VStr ''a@b.c'')),
                          (''organization_id'', JVal (VUuid 9)),
                          (''is_active'', JVal (VBool True))],
                    JVal VNone])]"
proof -
  have py: "py_iter (VList [VInt 1, VInt 5]) = Inr [VInt 1, VInt 5]" by simp
  have single: "\<exists>added. expand_column demo_env
                   (\<lambda>m v. get_one_recursive demo_env demo_session m v 1)
                   (''manager_id'', VInt 4) = Inr added
          \<and> (\<forall>json_obj. add_fields_to_json json_obj added = json_obj)"
    using unresolved_reference_expansion
      [of "''manager_id''" demo_env demo_session "VInt 4" 1 User "[]"] demo_manager_id
    by blast
  have plural: "expand_column demo_env (\<lambda>m v. get_one_recursive demo_env demo_session m v 0)
         (''user_ids'', VList [VInt 1, VInt 5]) =
       Inr [(''users'',
             JList [JDoc [(''id'', JVal (VInt 1)), (''uuid'', JVal (VUuid 7)),
                          (''email'', JVal (VStr ''a@b.c'')),
                          (''organization_id'', JVal (VUuid 9)),
                          (''is_active'', JVal (VBool True))],
                    JVal VNone])]"
    using unresolved_reference_expansion
      [of "''user_ids''" demo_env demo_session "VList [VInt 1, VInt 5]" 0 User
        "[VInt 1, VInt 5]"]
      demo_user_ids_plural demo_user_5 py
    by auto
  have absent: "get_entity_by_id_or_uuid demo_env demo_session (VInt 5) (Some User) = Inr None"
    by code_simp
  show ?thesis
    using single plural demo_manager_id demo_user_ids_plural demo_user_5(2) py absent by simp
qed

section \<open>Malformed identifiers\<close>











lemma strict_abc:
  "UUID_ctor demo_env ''abc'' = None" "\<not> isdigit ''abc''"
  "hasattr Organization ''id''" "\<not> hasattr Organization ''uuid''"
  "hasattr User ''id''" "hasattr User ''uuid''" "\<not> id_python_type_is_UUID User"
  "list_all (\<lambda>r. map_of r ''id'' \<noteq>
       Some (literal strict_session (cls_name Organization) ''id'' (VStr ''abc'')))
     (tables strict_session (cls_name Organization))"
  "rejects strict_session (cls_name Organization) ''id'' (VStr ''abc'')"
  "UUID_ctor demo_env ''1'' = None" "isdigit ''1''" "py_int ''1'' = Some 1"
  "UUID_ctor demo_env [CHR 0xB2] = None" "isdigit [CHR 0xB2]" "py_int [CHR 0xB2] = None"
  by code_simp+




section \<open>Deleting\<close>












section \<open>Creating\<close>

lemma create_expanding:
  assumes "db_insert S m entity = Inr (new_id, S')"
    and "\<not> (hasattr m ''uuid'' \<and> id_python_type_is_UUID m)"
  shows "create_entity_in_db E S m entity =
           (case get_entity_from_db_by_id E S' m new_id default_recursive_depth of
              Inl e \<Rightarrow> Inl e
            | Inr j \<Rightarrow> Inr (j, S'))"
  using assms by (auto simp: create_entity_in_db_def get_entity_from_db_by_id_def)

lemma db_insert_needs_id: "db_insert S m entity = Inr x \<Longrightarrow> hasattr m ''id''"
  by (auto simp: db_insert_def split: if_splits)

lemma create_flat:
  assumes ins: "db_insert S m entity = Inr (new_id, S')"
    and kind: "hasattr m ''uuid'' \<and> id_python_type_is_UUID m"
    and nostr: "\<forall>s. new_id \<noteq> VStr s"
    and found: "execute_query_one_or_none S' m ''id'' new_id = Inr (Some created_entity)"
  shows "create_entity_in_db E S m entity
           = Inr (JDoc (scalars (object_as_dict created_entity)), S')"
    and "get_entity_from_db_by_id E S' m new_id 0
           = Inr (JDoc (scalars (object_as_dict created_entity)))"
proof -
  show "create_entity_in_db E S m entity
           = Inr (JDoc (scalars (object_as_dict created_entity)), S')"
    using ins kind found by (simp add: create_entity_in_db_def)
  have hid: "hasattr m ''id''" using db_insert_needs_id [OF ins] .
  have "get_entity_by_id_or_uuid E S' new_id (Some m) = Inr (Some created_entity)"
    using kind hid nostr found by (cases new_id) auto
  then have "get_one_recursive E S' (Some m) new_id 0
      = Inr (JDoc (scalars (object_as_dict created_entity)))"
    by (simp add: get_one_recursive_flat)
  then show "get_entity_from_db_by_id E S' m new_id 0
           = Inr (JDoc (scalars (object_as_dict created_entity)))"
    using kind hid nostr by (cases new_id) (auto simp: get_entity_from_db_by_id_def)
qed

text \<open>
  C2, as the code has it. Let the insert return \<open>new_id\<close>. For a class without a \<open>uuid\<close>
  attribute or without a UUID-typed \<open>id\<close>, \<^verbatim>\<open>create\<close> returns what a read of \<open>new_id\<close> yields at
  depth 2, the default of the expander (\<^verbatim>\<open>create\<close> takes no depth). For a class with a
  \<open>uuid\<close> attribute and a UUID-typed \<open>id\<close>, \<^verbatim>\<open>create\<close> returns the row it fetches back, not
  expanded, which is what a read yields at depth 0.
\<close>

theorem create_then_read:
  "(db_insert S m entity = Inr (new_id, S')
      \<and> \<not> (hasattr m ''uuid'' \<and> id_python_type_is_UUID m)
    \<longrightarrow> create_entity_in_db E S m entity =
           (case get_entity_from_db_by_id E S' m new_id default_recursive_depth of
              Inl e \<Rightarrow> Inl e
            | Inr j \<Rightarrow> Inr (j, S')))
   \<and> (db_insert S m entity = Inr (new_id, S')
       \<and> hasattr m ''uuid'' \<and> id_python_type_is_UUID m
       \<and> (\<forall>s. new_id \<noteq> VStr s)
       \<and> execute_query_one_or_none S' m ''id'' new_id = Inr (Some created_entity)
    \<longrightarrow> create_entity_in_db E S m entity
           = Inr (JDoc (scalars (object_as_dict created_entity)), S')
        \<and> get_entity_from_db_by_id E S' m new_id 0
           = Inr (JDoc (scalars (object_as_dict created_entity))))"
  using create_expanding [of S m entity new_id S' E]
    create_flat [of S m entity new_id S' created_entity E]
  by blast

lemma badge_insert: "db_insert demo_session Badge badge_row = Inr (VUuid 21, badge_session)"
  by (simp add: db_insert_def badge_session_def demo_session_def Badge_def hasattr_def
      badge_row_def)

lemma badge_facts:
  "hasattr Badge ''uuid''" "id_python_type_is_UUID Badge"
  "execute_query_one_or_none badge_session Badge ''id'' (VUuid 21) = Inr (Some badge_row)"
  "scalars (object_as_dict badge_row) =
     [(''id'', JVal (VUuid 21)), (''uuid'', JVal (VUuid 22)),
      (''organization_id'', JVal (VUuid 9))]"
  "get_entity_from_db_by_id demo_env badge_session Badge (VUuid 21) 2 =
     Inr (JDoc [(''id'', JVal (VUuid 21)), (''uuid'', JVal (VUuid 22)),
                (''organization_id'', JVal (VUuid 9)),
                (''organization'',
                 JDoc [(''id'', JVal (VUuid 9)), (''name'', JVal (VStr ''Acme''))])])"
  "get_entity_from_db_by_id demo_env badge_session Badge (VUuid 21) 0 =
     Inr (JDoc [(''id'', JVal (VUuid 21)), (''uuid'', JVal (VUuid 22)),
                (''organization_id'', JVal (VUuid 9))])"
  by code_simp+

text \<open>
  For \<open>Badge\<close>, \<^verbatim>\<open>create\<close> returns the flat row, while the read of the new identifier at the
  expander's depth nests the organization.
\<close>

theorem create_then_read_counterexample:
  "create_entity_in_db demo_env demo_session Badge badge_row =
     Inr (JDoc [(''id'', JVal (VUuid 21)), (''uuid'', JVal (VUuid 22)),
                (''organization_id'', JVal (VUuid 9))],
          badge_session)
   \<and> get_entity_from_db_by_id demo_env badge_session Badge (VUuid 21) 2 =
       Inr (JDoc [(''id'', JVal (VUuid 21)), (''uuid'', JVal (VUuid 22)),
                  (''organization_id'', JVal (VUuid 9)),
                  (''organization'',
                   JDoc [(''id'', JVal (VUuid 9)), (''name'', JVal (VStr ''Acme''))])])"
  using badge_insert badge_facts
  by (simp add: create_entity_in_db_def)

lemma user_2_insert: "db_insert demo_session User user_2_row = Inr (VInt 2, user_2_session)"
  by (simp add: db_insert_def user_2_session_def demo_session_def User_def hasattr_def
      user_2_row_def)

lemma user_2_facts:
  "get_entity_from_db_by_id demo_env user_2_session User (VInt 2) default_recursive_depth =
     Inr (JDoc [(''id'', JVal (VInt 2)), (''uuid'', JVal (VUuid 8)),
                (''email'', JVal (VStr ''d@e.f'')),
                (''organization_id'', JVal (VUuid 9)),
                (''is_active'', JVal (VBool False)),
                (''organization'',
                 JDoc [(''id'', JVal (VUuid 9)), (''name'', JVal (VStr ''Acme''))])])"
  by code_simp

theorem create_then_read_witness:
  "db_insert demo_session User user_2_row = Inr (VInt 2, user_2_session)
   \<and> \<not> id_python_type_is_UUID User
   \<and> create_entity_in_db demo_env demo_session User user_2_row =
       Inr (JDoc [(''id'', JVal (VInt 2)), (''uuid'', JVal (VUuid 8)),
                  (''email'', JVal (VStr ''d@e.f'')),
                  (''organization_id'', JVal (VUuid 9)),
                  (''is_active'', JVal (VBool False)),
                  (''organization'',
                   JDoc [(''id'', JVal (VUuid 9)), (''name'', JVal (VStr ''Acme''))])],
            user_2_session)
   \<and> get_entity_from_db_by_id demo_env user_2_session User (VInt 2) default_recursive_depth =
       Inr (JDoc [(''id'', JVal (VInt 2)), (''uuid'', JVal (VUuid 8)),
                  (''email'', JVal (VStr ''d@e.f'')),
                  (''organization_id'', JVal (VUuid 9)),
                  (''is_active'', JVal (VBool False)),
                  (''organization'',
                   JDoc [(''id'', JVal (VUuid 9)), (''name'', JVal (VStr ''Acme''))])])
   \<and> db_insert demo_session Badge badge_row = Inr (VUuid 21, badge_session)
   \<and> hasattr Badge ''uuid'' \<and> id_python_type_is_UUID Badge
   \<and> execute_query_one_or_none badge_session Badge ''id'' (VUuid 21) = Inr (Some badge_row)
   \<and> create_entity_in_db demo_env demo_session Badge badge_row
       = Inr (JDoc (scalars (object_as_dict badge_row)), badge_session)
   \<and> get_entity_from_db_by_id demo_env badge_session Badge (VUuid 21) 0
       = Inr (JDoc (scalars (object_as_dict badge_row)))"
proof -
  have u: "create_entity_in_db demo_env demo_session User user_2_row =
       Inr (JDoc [(''id'', JVal (VInt 2)), (''uuid'', JVal (VUuid 8)),
                  (''email'', JVal (VStr ''d@e.f'')),
                  (''organization_id'', JVal (VUuid 9)),
                  (''is_active'', JVal (VBool False)),
                  (''organization'',
                   JDoc [(''id'', JVal (VUuid 9)), (''name'', JVal (VStr ''Acme''))])],
            user_2_session)"
    using create_then_read [of demo_session User user_2_row "VInt 2" user_2_session demo_env
        "[]"] user_2_insert user_2_facts strict_abc
    by simp
  have b: "create_entity_in_db demo_env demo_session Badge badge_row
       = Inr (JDoc (scalars (object_as_dict badge_row)), badge_session)
     \<and> get_entity_from_db_by_id demo_env badge_session Badge (VUuid 21) 0
       = Inr (JDoc (scalars (object_as_dict badge_row)))"
    using create_then_read [of demo_session Badge badge_row "VUuid 21" badge_session demo_env
        badge_row] badge_insert badge_facts(1-3)
    by simp
  show ?thesis using u b user_2_insert user_2_facts badge_insert badge_facts(1-3) strict_abc
    by simp
qed

section \<open>Updating\<close>






lemma db_update_tables:
  assumes "db_update S m col key data = Inr S'"
  shows "S' = S\<lparr>tables := (tables S)(cls_name m :=
                  map (\<lambda>r. if map_of r col = Some (literal S (cls_name m) col key)
                           then patch r data else r)
                    (tables S (cls_name m)))\<rparr>"
  using assms by (auto simp: db_update_def split: if_splits)
















end
